theory Spec2Isabelle
  imports Complex_Main
begin

section \<open>Numbers and vectors\<close>

text \<open>
  The scene component (Scene.tsx) computes with JavaScript numbers. They are modelled by
  the real numbers: \<open>Math.sin\<close>, \<open>Math.cos\<close>, \<open>Math.acos\<close> and \<open>Math.pow\<close> are
  \<open>sin\<close>, \<open>cos\<close>, \<open>arccos\<close> and \<open>powr\<close>, and \<open>Math.PI\<close> is \<open>pi\<close>. Rounding, infinities and
  NaN are outside this model; every statement below is one about exact arithmetic.
  A statement whose truth turns on the rounding of a double (a tight bound on a value
  that the source computes by several rounded operations) is therefore not made here.

  A \<open>THREE.Vector3\<close> (and the \<open>THREE.Euler\<close> of a mesh rotation) is a record of three
  coordinates. The methods of the rendering library that the component calls are written
  out as the library documents them: \<open>setScalar\<close> stores one number in all three
  coordinates, \<open>lerp\<close> moves every coordinate by \<open>alpha\<close> times its difference to the
  argument, \<open>distanceTo\<close> is the Euclidean distance.
\<close>

record Vector3 =
  vx :: real
  vy :: real
  vz :: real

definition setScalar :: "real \<Rightarrow> Vector3" where
  "setScalar s = \<lparr>vx = s, vy = s, vz = s\<rparr>"

definition lerp :: "Vector3 \<Rightarrow> Vector3 \<Rightarrow> real \<Rightarrow> Vector3" where
  "lerp this v alpha =
     \<lparr>vx = vx this + (vx v - vx this) * alpha,
      vy = vy this + (vy v - vy this) * alpha,
      vz = vz this + (vz v - vz this) * alpha\<rparr>"

definition distanceTo :: "Vector3 \<Rightarrow> Vector3 \<Rightarrow> real" where
  "distanceTo this v =
     sqrt ((vx this - vx v) * (vx this - vx v) + (vy this - vy v) * (vy this - vy v)
           + (vz this - vz v) * (vz this - vz v))"

section \<open>Materials, meshes and particles\<close>

text \<open>
  The materials are created once in the scene setup and shared by the meshes that use
  them, so a mesh holds the name of its material. \<open>MatDefault\<close> stands for the material
  a mesh gets when the palette lookup yields \<open>undefined\<close>. The colour of each material is
  the constant of the source.
\<close>

datatype Material =
    MatLeafDark | MatLeafMid | MatLeafBright | MatTrunk
  | MatGold | MatRed | MatSilver | MatLightWarm | MatLightColor
  | MatSnow | MatStar | MatDefault

fun color :: "Material \<Rightarrow> nat" where
  "color MatLeafDark = 0x1a472a"
| "color MatLeafMid = 0x2e7d32"
| "color MatLeafBright = 0x4caf50"
| "color MatTrunk = 0x4e342e"
| "color MatGold = 0xffd700"
| "color MatRed = 0xd32f2f"
| "color MatSilver = 0xe0e0e0"
| "color MatLightWarm = 0xffffee"
| "color MatLightColor = 0xffcccc"
| "color MatSnow = 0xffffff"
| "color MatStar = 0xffffee"
| "color MatDefault = 0xffffff"

text \<open>
  The only property of a material that the animation writes is its emissive intensity.
  The store gives the current value for every material, \<open>None\<close> where the property has
  never been set on the object.
\<close>

type_synonym Materials = "Material \<Rightarrow> real option"

datatype ptype = Leaf | Ornament | Light | Star | Snow | Trunk

record Mesh =
  position :: Vector3
  rotation :: Vector3
  scale :: Vector3
  material :: Material

record Particle =
  mesh :: Mesh
  posTree :: Vector3
  posScatter :: Vector3
  initialScale :: real
  rotationSpeed :: Vector3
  phase :: real
  type :: ptype
  baseColor :: nat

text \<open>
  \<open>Math.random()\<close> is a stream of draws \<open>rnd 0, rnd 1, ...\<close>; a piece of code that runs
  when \<open>k\<close> draws have been made reads \<open>rnd k\<close> first. The constructor of \<open>Particle\<close>
  makes four draws: three for the rotation speed and one for the phase.
\<close>

definition newParticle ::
  "(nat \<Rightarrow> real) \<Rightarrow> nat \<Rightarrow> Mesh \<Rightarrow> Vector3 \<Rightarrow> Vector3 \<Rightarrow> ptype \<Rightarrow> Particle" where
  "newParticle rnd k m treePos scatterPos ty =
     \<lparr>mesh = m,
      posTree = treePos,
      posScatter = scatterPos,
      initialScale = vx (scale m),
      rotationSpeed =
        \<lparr>vx = (rnd k - 0.5) * 0.02,
         vy = (rnd (k + 1) - 0.5) * 0.02,
         vz = (rnd (k + 2) - 0.5) * 0.02\<rparr>,
      phase = rnd (k + 3) * pi * 2,
      type = ty,
      baseColor = color (material m)\<rparr>"

section \<open>Particle.update\<close>

definition speedFactor :: "ptype \<Rightarrow> bool \<Rightarrow> real" where
  "speedFactor ty isTreeMode =
     (let speed0 = 2.0;
          speed1 = (if ty = Ornament then 1.8 else speed0);
          speed2 = (if ty = Leaf then 2.2 else speed1);
          speed3 = (if \<not> isTreeMode then 1.5 else speed2)
      in speed3)"

definition target :: "Particle \<Rightarrow> bool \<Rightarrow> Vector3" where
  "target p isTreeMode = (if isTreeMode then posTree p else posScatter p)"

definition blink :: "real \<Rightarrow> real \<Rightarrow> real" where
  "blink time ph = sin (time * 3 + ph) * 0.5 + 0.5"

text \<open>
  One call of \<open>update\<close> on a particle, in the store of the materials. The call moves the
  position, adds the rotation speed to the rotation, and then runs the branch of the
  particle's type.
\<close>

definition update ::
  "real \<Rightarrow> bool \<Rightarrow> real \<Rightarrow> Materials \<times> Particle \<Rightarrow> Materials \<times> Particle" where
  "update dt isTreeMode time st =
     (let ms = fst st;
          p = snd st;
          speed = speedFactor (type p) isTreeMode;
          m1 = (mesh p)\<lparr>position := lerp (position (mesh p)) (target p isTreeMode) (dt * speed)\<rparr>;
          m2 = m1\<lparr>rotation :=
                 \<lparr>vx = vx (rotation m1) + vx (rotationSpeed p),
                  vy = vy (rotation m1) + vy (rotationSpeed p),
                  vz = vz (rotation m1) + vz (rotationSpeed p)\<rparr>\<rparr>
      in if type p = Light then
           (let b = blink time (phase p);
                ms' = ms(material m2 \<mapsto> 0.5 + b * 1.5);
                sc = initialScale p * (0.8 + b * 0.4)
            in (ms', p\<lparr>mesh := m2\<lparr>scale := setScalar sc\<rparr>\<rparr>))
         else if type p = Star then
           (let pulse = sin (time * 2) * 0.2 + 1.0;
                m3 = m2\<lparr>scale := setScalar (initialScale p * pulse)\<rparr>;
                ms' = ms(material m3 \<mapsto> 1.0 + sin (time * 4) * 0.5)
            in (ms', p\<lparr>mesh := m3\<rparr>))
         else if type p = Snow then
           (let r1 = (rotation m2)\<lparr>vy := vy (rotation m2) + 0.01\<rparr>;
                r2 = r1\<lparr>vz := vz r1 + 0.005\<rparr>
            in (ms, p\<lparr>mesh := m2\<lparr>rotation := r2\<rparr>\<rparr>))
         else (ms, p\<lparr>mesh := m2\<rparr>))"

text \<open>The emissive intensity of a particle: that of the material of its mesh.\<close>

definition emissiveIntensity :: "Materials \<times> Particle \<Rightarrow> real option" where
  "emissiveIntensity st = fst st (material (mesh (snd st)))"

section \<open>Scene setup: the particles of the tree\<close>

text \<open>
  The state of the object generation: how many draws \<open>Math.random()\<close> has made, and the
  list \<open>particles\<close> in the order of the \<open>push\<close> calls.
\<close>

record Scene =
  draws :: nat
  particles :: "Particle list"

definition TREE_HEIGHT :: real where [simp]: "TREE_HEIGHT = 30"
definition TREE_WIDTH_BASE :: real where [simp]: "TREE_WIDTH_BASE = 14"
definition TRUNK_HEIGHT :: real where [simp]: "TRUNK_HEIGHT = 4"
definition Y_OFFSET :: real where [simp]: "Y_OFFSET = - 18"
definition FOLIAGE_COUNT :: nat where [simp]: "FOLIAGE_COUNT = 8000"
definition ORNAMENT_COUNT :: nat where [simp]: "ORNAMENT_COUNT = 350"
definition LIGHT_COUNT :: nat where [simp]: "LIGHT_COUNT = 400"
definition TURNS :: real where [simp]: "TURNS = 10"
definition SNOW_COUNT :: nat where [simp]: "SNOW_COUNT = 700"

text \<open>
  \<open>new THREE.Mesh(geometry, material)\<close>: at the origin, not rotated, of scale one. The
  geometry and the two halo meshes attached to the star play no part in the animation
  and are left out.
\<close>

definition newMesh :: "Material \<Rightarrow> Mesh" where
  "newMesh mat =
     \<lparr>position = \<lparr>vx = 0, vy = 0, vz = 0\<rparr>,
      rotation = \<lparr>vx = 0, vy = 0, vz = 0\<rparr>,
      scale = \<lparr>vx = 1, vy = 1, vz = 1\<rparr>,
      material = mat\<rparr>"

definition leafMaterials :: "Material list" where
  "leafMaterials = [MatLeafDark, MatLeafMid, MatLeafMid, MatLeafBright]"

definition ornamentMaterials :: "Material list" where
  "ornamentMaterials = [MatGold, MatRed, MatRed, MatSilver]"

text \<open>
  \<open>mats[Math.floor(u * mats.length)]\<close>; an index outside the array reads \<open>undefined\<close>,
  and the mesh then gets the default material.
\<close>

definition pick :: "Material list \<Rightarrow> real \<Rightarrow> Material" where
  "pick mats u =
     (let i = \<lfloor>u * real (length mats)\<rfloor>
      in if 0 \<le> i \<and> i < int (length mats) then mats ! nat i else MatDefault)"

text \<open>
  The default scatter position of \<open>addParticle\<close>, from the three draws that start at
  \<open>k\<close>: a radius, an azimuth and a polar angle. The coordinates are the exact products;
  the doubles that the source stores are these products after the rounding of every
  operation and of \<open>Math.sin\<close>, \<open>Math.cos\<close> and \<open>Math.acos\<close>, so the norm of the stored
  vector can differ from the radius in the last digits. The definition says which rule
  and which draws a scatter position comes from; no bound on the norm is derived from
  it.
\<close>

definition scatterDefault :: "(nat \<Rightarrow> real) \<Rightarrow> nat \<Rightarrow> Vector3" where
  "scatterDefault rnd k =
     (let r = 35 + rnd k * 30;
          theta = rnd (k + 1) * pi * 2;
          phi = arccos (2 * rnd (k + 2) - 1)
      in \<lparr>vx = r * sin phi * cos theta,
          vy = r * sin phi * sin theta,
          vz = r * cos phi\<rparr>)"

definition addParticle ::
  "(nat \<Rightarrow> real) \<Rightarrow> Mesh \<Rightarrow> Vector3 \<Rightarrow> ptype \<Rightarrow> Vector3 option \<Rightarrow> Scene \<Rightarrow> Scene" where
  "addParticle rnd m pos ty customScatterPos s =
     (let m' = m\<lparr>position := pos\<rparr>;
          k = draws s;
          (scatterPos, k') =
            (case customScatterPos of
               Some c \<Rightarrow> (c, k)
             | None \<Rightarrow> (scatterDefault rnd k, k + 3))
      in \<lparr>draws = k' + 4,
          particles = particles s @ [newParticle rnd k' m' pos scatterPos ty]\<rparr>)"

subsection \<open>A. Trunk\<close>

definition trunkIter :: "(nat \<Rightarrow> real) \<Rightarrow> nat \<Rightarrow> Scene \<Rightarrow> Scene" where
  "trunkIter rnd i s =
     (let k = draws s;
          h = rnd k * TRUNK_HEIGHT;
          theta = rnd (k + 1) * pi * 2;
          r = rnd (k + 2) * 1.8;
          x = r * cos theta;
          z = r * sin theta;
          m = (newMesh MatTrunk)\<lparr>scale := \<lparr>vx = 0.3, vy = 0.3, vz = 0.3\<rparr>\<rparr>;
          pos = \<lparr>vx = x, vy = Y_OFFSET + h - TRUNK_HEIGHT + 1, vz = z\<rparr>
      in addParticle rnd m pos Trunk None (s\<lparr>draws := k + 3\<rparr>))"

subsection \<open>B. Foliage\<close>

definition foliageRNorm :: "real \<Rightarrow> real" where
  "foliageRNorm u = u powr 0.8"

definition foliageMaxR :: "nat \<Rightarrow> real" where
  "foliageMaxR i = TREE_WIDTH_BASE * (1 - real i / real FOLIAGE_COUNT)"

definition branchNoise :: "nat \<Rightarrow> real" where
  "branchNoise i = sin (real i / real FOLIAGE_COUNT * TREE_HEIGHT * 2.5) * 0.2"

definition foliageR :: "nat \<Rightarrow> real \<Rightarrow> real" where
  "foliageR i u =
     (let maxR = foliageMaxR i;
          rNorm = foliageRNorm u
      in maxR * rNorm * (1 + branchNoise i * (if rNorm > 0.6 then 1 else 0)))"

definition foliageIter :: "(nat \<Rightarrow> real) \<Rightarrow> nat \<Rightarrow> Scene \<Rightarrow> Scene" where
  "foliageIter rnd i s =
     (let k = draws s;
          t = real i / real FOLIAGE_COUNT;
          h = t * TREE_HEIGHT;
          r = foliageR i (rnd k);
          theta = rnd (k + 1) * pi * 2;
          x = r * cos theta;
          z = r * sin theta;
          y = Y_OFFSET + h;
          mat = pick leafMaterials (rnd (k + 2));
          sc = (0.2 + rnd (k + 3) * 0.3) * (1.2 - t * 0.4);
          m = (newMesh mat)
                \<lparr>scale := setScalar sc,
                 rotation := \<lparr>vx = rnd (k + 4) * pi, vy = rnd (k + 5) * pi, vz = rnd (k + 6) * pi\<rparr>\<rparr>
      in addParticle rnd m \<lparr>vx = x, vy = y, vz = z\<rparr> Leaf None (s\<lparr>draws := k + 7\<rparr>))"

subsection \<open>C. Ornaments\<close>

definition ornamentIter :: "(nat \<Rightarrow> real) \<Rightarrow> nat \<Rightarrow> Scene \<Rightarrow> Scene" where
  "ornamentIter rnd i s =
     (let k = draws s;
          t = rnd k
      in if t > 0.98 then s\<lparr>draws := k + 1\<rparr>
         else
           (let h = t * TREE_HEIGHT;
                maxR = TREE_WIDTH_BASE * (1 - t);
                r = maxR * (0.8 + rnd (k + 1) * 0.3);
                theta = rnd (k + 2) * pi * 2;
                x = r * cos theta;
                z = r * sin theta;
                y = Y_OFFSET + h;
                mat = pick ornamentMaterials (rnd (k + 3));
                isLarge = rnd (k + 4) > 0.7;
                sc = (if isLarge then 0.6 + rnd (k + 5) * 0.3 else 0.3 + rnd (k + 5) * 0.2);
                m = (newMesh mat)\<lparr>scale := setScalar sc\<rparr>
            in addParticle rnd m \<lparr>vx = x, vy = y, vz = z\<rparr> Ornament None (s\<lparr>draws := k + 6\<rparr>)))"

subsection \<open>D. Lights\<close>

definition lightIter :: "(nat \<Rightarrow> real) \<Rightarrow> nat \<Rightarrow> Scene \<Rightarrow> Scene" where
  "lightIter rnd i s =
     (let k = draws s;
          t = real i / real LIGHT_COUNT;
          h = t * TREE_HEIGHT;
          maxR = TREE_WIDTH_BASE * (1 - t);
          angle = t * pi * 2 * TURNS;
          r = (maxR + 0.5) * (0.95 + rnd k * 0.1);
          x = r * cos angle;
          z = r * sin angle;
          y = Y_OFFSET + h;
          mat = (if rnd (k + 1) > 0.8 then MatLightColor else MatLightWarm);
          m = (newMesh mat)\<lparr>scale := setScalar 0.25\<rparr>
      in addParticle rnd m \<lparr>vx = x, vy = y, vz = z\<rparr> Light None (s\<lparr>draws := k + 2\<rparr>))"

subsection \<open>E. Star\<close>

definition addStar :: "(nat \<Rightarrow> real) \<Rightarrow> Scene \<Rightarrow> Scene" where
  "addStar rnd s =
     (let starMesh = (newMesh MatStar)\<lparr>scale := setScalar 2.5\<rparr>
      in addParticle rnd starMesh \<lparr>vx = 0, vy = Y_OFFSET + TREE_HEIGHT + 1.5, vz = 0\<rparr> Star None s)"

subsection \<open>F. Snow\<close>

text \<open>
  The scatter position of a snow particle, from the three draws that start at \<open>k\<close>. As
  for the default rule, the coordinates are the exact products, and no bound on the norm
  of the stored doubles is derived from the definition.
\<close>

definition snowScatter :: "(nat \<Rightarrow> real) \<Rightarrow> nat \<Rightarrow> Vector3" where
  "snowScatter rnd k =
     (let scatterR = 80 + rnd k * 20;
          phi = rnd (k + 1) * pi * 2;
          theta = rnd (k + 2) * pi
      in \<lparr>vx = scatterR * sin theta * cos phi,
          vy = scatterR * sin theta * sin phi,
          vz = scatterR * cos theta\<rparr>)"

definition snowIter :: "(nat \<Rightarrow> real) \<Rightarrow> nat \<Rightarrow> Scene \<Rightarrow> Scene" where
  "snowIter rnd i s =
     (let k = draws s;
          m = (newMesh MatSnow)\<lparr>scale := setScalar 0.12\<rparr>;
          range = 70;
          x = (rnd k - 0.5) * range;
          y = (rnd (k + 1) - 0.5) * range + 10;
          z = (rnd (k + 2) - 0.5) * range
      in addParticle rnd m \<lparr>vx = x, vy = y, vz = z\<rparr> Snow (Some (snowScatter rnd (k + 3)))
           (s\<lparr>draws := k + 6\<rparr>))"

subsection \<open>The whole generation\<close>

text \<open>
  A loop \<open>for (let i = 0; i < n; i++)\<close> is the fold of its body over \<open>0, ..., n - 1\<close>.
  The six sections run one after the other on the list that starts empty.
\<close>

definition afterTrunk :: "(nat \<Rightarrow> real) \<Rightarrow> Scene" where
  "afterTrunk rnd = fold (trunkIter rnd) [0..<250] \<lparr>draws = 0, particles = []\<rparr>"

definition afterFoliage :: "(nat \<Rightarrow> real) \<Rightarrow> Scene" where
  "afterFoliage rnd = fold (foliageIter rnd) [0..<FOLIAGE_COUNT] (afterTrunk rnd)"

definition afterOrnaments :: "(nat \<Rightarrow> real) \<Rightarrow> Scene" where
  "afterOrnaments rnd = fold (ornamentIter rnd) [0..<ORNAMENT_COUNT] (afterFoliage rnd)"

definition afterLights :: "(nat \<Rightarrow> real) \<Rightarrow> Scene" where
  "afterLights rnd = fold (lightIter rnd) [0..<LIGHT_COUNT] (afterOrnaments rnd)"

definition afterStar :: "(nat \<Rightarrow> real) \<Rightarrow> Scene" where
  "afterStar rnd = addStar rnd (afterLights rnd)"

definition generateScene :: "(nat \<Rightarrow> real) \<Rightarrow> Scene" where
  "generateScene rnd = fold (snowIter rnd) [0..<SNOW_COUNT] (afterStar rnd)"

text \<open>The draw \<open>t\<close> of the ornament loop's iteration \<open>i\<close>.\<close>

definition ornamentT :: "(nat \<Rightarrow> real) \<Rightarrow> nat \<Rightarrow> real" where
  "ornamentT rnd i = rnd (draws (fold (ornamentIter rnd) [0..<i] (afterFoliage rnd)))"

definition countType :: "ptype \<Rightarrow> Particle list \<Rightarrow> nat" where
  "countType ty ps = length (filter (\<lambda>p. type p = ty) ps)"

section \<open>What is observed of a particle, and sample particles\<close>

text \<open>
  The state of a particle as an observer of the animation sees it: the transform of its
  mesh and the emissive intensity of its material, then the fields that are set at
  construction. The identity of the material and the base colour are not part of it.
\<close>

definition observed ::
  "Materials \<times> Particle \<Rightarrow>
     (Vector3 \<times> Vector3 \<times> Vector3 \<times> real option) \<times>
     (Vector3 \<times> Vector3 \<times> real \<times> Vector3 \<times> real \<times> ptype)" where
  "observed st =
     (let p = snd st
      in ((position (mesh p), rotation (mesh p), scale (mesh p), emissiveIntensity st),
          (posTree p, posScatter p, initialScale p, rotationSpeed p, phase p, type p)))"

text \<open>
  A particle built by the constructor from the constant stream of draws \<open>1/2\<close>: its
  rotation speed is zero and its phase is \<open>pi\<close>.
\<close>

definition sampleParticle :: "Material \<Rightarrow> ptype \<Rightarrow> Particle" where
  "sampleParticle mat ty =
     newParticle (\<lambda>k. 1 / 2) 0 (newMesh mat) \<lparr>vx = 0, vy = 12, vz = 0\<rparr> \<lparr>vx = 35, vy = 0, vz = 0\<rparr> ty"

text \<open>
  What the object generation establishes for a particle of type \<open>ty\<close>: the mesh stands
  at the tree position, and the scatter position comes from the default rule of
  \<open>addParticle\<close>, or from the rule of the snow loop for a snow particle, at some draw.
\<close>

definition placed :: "(nat \<Rightarrow> real) \<Rightarrow> ptype \<Rightarrow> Particle \<Rightarrow> bool" where
  "placed rnd ty q =
     (type q = ty \<and> position (mesh q) = posTree q
      \<and> (\<exists>k. posScatter q = (if ty = Snow then snowScatter rnd k else scatterDefault rnd k)))"

section \<open>Properties of Particle.update\<close>

lemma speedFactor_cases:
  "speedFactor ty tm =
     (if tm then (case ty of Ornament \<Rightarrow> 1.8 | Leaf \<Rightarrow> 2.2 | _ \<Rightarrow> 2.0) else 1.5)"
  by (cases ty) (simp_all add: speedFactor_def)

lemma speedFactor_pos: "0 < speedFactor ty tm"
  by (cases ty) (simp_all add: speedFactor_def)

lemma update_position:
  "position (mesh (snd (update dt tm time (ms, p)))) =
     lerp (position (mesh p)) (target p tm) (dt * speedFactor (type p) tm)"
  by (simp add: update_def Let_def)

lemma update_fixed_fields:
  "posTree (snd (update dt tm time (ms, p))) = posTree p"
  "posScatter (snd (update dt tm time (ms, p))) = posScatter p"
  "initialScale (snd (update dt tm time (ms, p))) = initialScale p"
  "rotationSpeed (snd (update dt tm time (ms, p))) = rotationSpeed p"
  "phase (snd (update dt tm time (ms, p))) = phase p"
  "type (snd (update dt tm time (ms, p))) = type p"
  "baseColor (snd (update dt tm time (ms, p))) = baseColor p"
  "material (mesh (snd (update dt tm time (ms, p)))) = material (mesh p)"
  by (simp_all add: update_def Let_def)

lemma update_scale:
  "scale (mesh (snd (update dt tm time (ms, p)))) =
     (if type p = Light then setScalar (initialScale p * (0.8 + blink time (phase p) * 0.4))
      else if type p = Star then setScalar (initialScale p * (1.0 + sin (time * 2) * 0.2))
      else scale (mesh p))"
  by (simp add: update_def Let_def add.commute)

lemma update_rotation:
  "rotation (mesh (snd (update dt tm time (ms, p)))) =
     (let r = \<lparr>vx = vx (rotation (mesh p)) + vx (rotationSpeed p),
               vy = vy (rotation (mesh p)) + vy (rotationSpeed p),
               vz = vz (rotation (mesh p)) + vz (rotationSpeed p)\<rparr>
      in if type p = Snow then r\<lparr>vy := vy r + 0.01, vz := vz r + 0.005\<rparr> else r)"
  by (simp add: update_def Let_def)

lemma update_emissive:
  "emissiveIntensity (update dt tm time (ms, p)) =
     (if type p = Light then Some (0.5 + blink time (phase p) * 1.5)
      else if type p = Star then Some (1.0 + sin (time * 4) * 0.5)
      else emissiveIntensity (ms, p))"
  by (simp add: update_def Let_def emissiveIntensity_def)

lemma update_store:
  "fst (update dt tm time (ms, p)) =
     (if type p = Light then ms(material (mesh p) \<mapsto> 0.5 + blink time (phase p) * 1.5)
      else if type p = Star then ms(material (mesh p) \<mapsto> 1.0 + sin (time * 4) * 0.5)
      else ms)"
  by (simp add: update_def Let_def)

lemma blink_range: "0 \<le> blink time ph \<and> blink time ph \<le> 1"
proof -
  have "- 1 \<le> sin (time * 3 + ph)" "sin (time * 3 + ph) \<le> 1" by simp_all
  then show ?thesis unfolding blink_def by linarith
qed

lemma distanceTo_lerp:
  "distanceTo (lerp a t al) t = \<bar>1 - al\<bar> * distanceTo a t"
proof -
  have e: "\<And>x y :: real. x + (y - x) * al - y = (1 - al) * (x - y)"
    by (simp add: algebra_simps)
  have "(vx a + (vx t - vx a) * al - vx t) * (vx a + (vx t - vx a) * al - vx t)
      + (vy a + (vy t - vy a) * al - vy t) * (vy a + (vy t - vy a) * al - vy t)
      + (vz a + (vz t - vz a) * al - vz t) * (vz a + (vz t - vz a) * al - vz t)
      = (1 - al)\<^sup>2 * ((vx a - vx t) * (vx a - vx t) + (vy a - vy t) * (vy a - vy t)
           + (vz a - vz t) * (vz a - vz t))"
    unfolding e by (simp add: power2_eq_square algebra_simps)
  then show ?thesis
    by (simp add: distanceTo_def lerp_def real_sqrt_mult)
qed

lemma distanceTo_pos:
  fixes a t :: Vector3
  assumes "a \<noteq> t"
  shows "0 < distanceTo a t"
proof -
  from assms have "vx a \<noteq> vx t \<or> vy a \<noteq> vy t \<or> vz a \<noteq> vz t"
    by (cases a, cases t) auto
  then have "0 < (vx a - vx t) * (vx a - vx t) + (vy a - vy t) * (vy a - vy t)
           + (vz a - vz t) * (vz a - vz t)"
    by (auto simp: sum_power2_gt_zero_iff power2_eq_square [symmetric]
        intro: add_pos_nonneg add_nonneg_pos)
  then show ?thesis by (simp add: distanceTo_def)
qed

section \<open>The claims on Particle.update\<close>

text \<open>
  Claim C1. Under a fixed mode and a positive delta-time \<open>dt\<close> with \<open>dt\<close> times the speed
  factor of the particle's type below one, a call of \<open>update\<close> strictly decreases the
  Euclidean distance from the position of the mesh to the target that the mode selects,
  unless the position is the target already. The target of the updated particle is the
  target of the particle before the call.
\<close>

theorem update_moves_closer:
  assumes "0 < dt" and "dt * speedFactor (type p) tm < 1"
    and "position (mesh p) \<noteq> target p tm"
  shows "distanceTo (position (mesh (snd (update dt tm time (ms, p)))))
           (target (snd (update dt tm time (ms, p))) tm)
         < distanceTo (position (mesh p)) (target p tm)"
proof -
  let ?a = "dt * speedFactor (type p) tm"
  have a: "0 < ?a" using assms(1) speedFactor_pos by simp
  have t: "target (snd (update dt tm time (ms, p))) tm = target p tm"
    by (simp add: target_def update_fixed_fields)
  have d: "0 < distanceTo (position (mesh p)) (target p tm)"
    using assms(3) by (rule distanceTo_pos)
  have "distanceTo (position (mesh (snd (update dt tm time (ms, p))))) (target p tm)
        = (1 - ?a) * distanceTo (position (mesh p)) (target p tm)"
    using assms(2) a by (simp add: update_position distanceTo_lerp)
  also have "\<dots> < 1 * distanceTo (position (mesh p)) (target p tm)"
    using a d by (intro mult_strict_right_mono) simp_all
  finally show ?thesis by (simp add: t)
qed

text \<open>
  A leaf at the origin with its tree position at height 12, one frame of a sixtieth of a
  second in tree mode.
\<close>

theorem update_moves_closer_witness:
  "(0::real) < 1 / 60
   \<and> 1 / 60 * speedFactor (type (sampleParticle MatLeafMid Leaf)) True < 1
   \<and> position (mesh (sampleParticle MatLeafMid Leaf)) \<noteq> target (sampleParticle MatLeafMid Leaf) True
   \<and> distanceTo
        (position (mesh (snd (update (1 / 60) True 0 (Map.empty, sampleParticle MatLeafMid Leaf)))))
        (target (snd (update (1 / 60) True 0 (Map.empty, sampleParticle MatLeafMid Leaf))) True)
      < distanceTo (position (mesh (sampleParticle MatLeafMid Leaf)))
          (target (sampleParticle MatLeafMid Leaf) True)"
proof -
  have h1: "(0::real) < 1 / 60" by simp
  have h2: "1 / 60 * speedFactor (type (sampleParticle MatLeafMid Leaf)) True < 1"
    by (simp add: sampleParticle_def newParticle_def speedFactor_def)
  have h3: "position (mesh (sampleParticle MatLeafMid Leaf)) \<noteq> target (sampleParticle MatLeafMid Leaf) True"
    by (simp add: sampleParticle_def newParticle_def newMesh_def target_def)
  show ?thesis
    using h1 h2 h3 update_moves_closer [OF h1 h2 h3, of 0 Map.empty] by simp
qed

text \<open>
  Claim C2. The position after \<open>update\<close> is the interpolation of the position before it
  towards the target of the mode at the rate \<open>dt\<close> times the speed factor; the speed
  factor is 1.8 for an ornament, 2.2 for a leaf and 2.0 for every other type in tree
  mode, and 1.5 for every type in dispersed mode.
\<close>

theorem update_interpolation_rate:
  "position (mesh (snd (update dt isTreeMode time (ms, p)))) =
     lerp (position (mesh p)) (if isTreeMode then posTree p else posScatter p)
       (dt * speedFactor (type p) isTreeMode)
   \<and> speedFactor ty True = (case ty of Ornament \<Rightarrow> 1.8 | Leaf \<Rightarrow> 2.2 | _ \<Rightarrow> 2.0)
   \<and> speedFactor ty False = 1.5"
  by (simp add: update_position target_def speedFactor_cases)

text \<open>
  Claim C4. For a light, \<open>update\<close> sets the emissive intensity to
  \<open>0.5 + blink * 1.5\<close> with \<open>blink = sin (time * 3 + phase) * 0.5 + 0.5\<close>, a value within
  \<open>[0.5, 2.0]\<close>; for the star it sets \<open>1.0 + sin (time * 4) * 0.5\<close>, a value within
  \<open>[0.5, 1.5]\<close>; for every time and phase.
\<close>

theorem emissive_intensity_bounds:
  "(type p = Light \<longrightarrow>
      (\<exists>v. emissiveIntensity (update dt tm time (ms, p)) = Some v
          \<and> v = 0.5 + blink time (phase p) * 1.5 \<and> 0.5 \<le> v \<and> v \<le> 2.0))
   \<and> (type p = Star \<longrightarrow>
      (\<exists>v. emissiveIntensity (update dt tm time (ms, p)) = Some v
          \<and> v = 1.0 + sin (time * 4) * 0.5 \<and> 0.5 \<le> v \<and> v \<le> 1.5))"
proof -
  have b: "0 \<le> blink time (phase p)" "blink time (phase p) \<le> 1"
    using blink_range by simp_all
  have s: "- 1 \<le> sin (time * 4)" "sin (time * 4) \<le> 1" by simp_all
  have l: "(0.5::real) \<le> 0.5 + blink time (phase p) * 1.5"
    "0.5 + blink time (phase p) * 1.5 \<le> (2.0::real)"
    using b by linarith+
  have r: "(0.5::real) \<le> 1.0 + sin (time * 4) * 0.5" "1.0 + sin (time * 4) * 0.5 \<le> (1.5::real)"
    using s by linarith+
  show ?thesis
    using l r by (simp only: update_emissive) simp
qed

text \<open>A light and a star at time 0, both of phase \<open>pi\<close>.\<close>

theorem emissive_intensity_bounds_witness:
  "type (sampleParticle MatLightWarm Light) = Light
   \<and> (\<exists>v. emissiveIntensity (update (1 / 60) True 0 (Map.empty, sampleParticle MatLightWarm Light)) = Some v
        \<and> v = 0.5 + blink 0 (phase (sampleParticle MatLightWarm Light)) * 1.5 \<and> 0.5 \<le> v \<and> v \<le> 2.0)
   \<and> type (sampleParticle MatStar Star) = Star
   \<and> (\<exists>v. emissiveIntensity (update (1 / 60) True 0 (Map.empty, sampleParticle MatStar Star)) = Some v
        \<and> v = 1.0 + sin (0 * 4) * 0.5 \<and> 0.5 \<le> v \<and> v \<le> 1.5)"
proof -
  have l: "type (sampleParticle MatLightWarm Light) = Light"
    by (simp add: sampleParticle_def newParticle_def)
  have s: "type (sampleParticle MatStar Star) = Star"
    by (simp add: sampleParticle_def newParticle_def)
  show ?thesis
    using l s
      emissive_intensity_bounds [of "sampleParticle MatLightWarm Light" "1 / 60" True 0 Map.empty]
      emissive_intensity_bounds [of "sampleParticle MatStar Star" "1 / 60" True 0 Map.empty]
    by simp
qed

text \<open>
  Claim C5. The constructor captures the initial scale from the mesh, no call of
  \<open>update\<close> changes it, and the scale that \<open>update\<close> assigns to a light or to the star
  is computed from the initial scale, the time and the phase alone: after a second call
  the scale is the one of the second call's time on the same initial scale, whatever
  the first call has left in the mesh.
\<close>

theorem initialScale_fixed_baseline:
  "initialScale (newParticle rnd k m treePos scatterPos ty) = vx (scale m)
   \<and> initialScale (snd (update dt tm time (ms, p))) = initialScale p
   \<and> scale (mesh (snd (update dt tm time (ms, p)))) =
       (if type p = Light then setScalar (initialScale p * (0.8 + blink time (phase p) * 0.4))
        else if type p = Star then setScalar (initialScale p * (1.0 + sin (time * 2) * 0.2))
        else scale (mesh p))
   \<and> scale (mesh (snd (update dt' tm' time' (update dt tm time (ms, p))))) =
       (if type p = Light then setScalar (initialScale p * (0.8 + blink time' (phase p) * 0.4))
        else if type p = Star then setScalar (initialScale p * (1.0 + sin (time' * 2) * 0.2))
        else scale (mesh p))"
proof -
  obtain ms1 p1 where u: "update dt tm time (ms, p) = (ms1, p1)"
    by (cases "update dt tm time (ms, p)")
  have f: "initialScale p1 = initialScale p" "phase p1 = phase p" "type p1 = type p"
    using update_fixed_fields [of dt tm time ms p] by (simp_all add: u)
  have s1: "scale (mesh p1) =
       (if type p = Light then setScalar (initialScale p * (0.8 + blink time (phase p) * 0.4))
        else if type p = Star then setScalar (initialScale p * (1.0 + sin (time * 2) * 0.2))
        else scale (mesh p))"
    using update_scale [of dt tm time ms p] by (simp add: u)
  have s2: "scale (mesh (snd (update dt' tm' time' (ms1, p1)))) =
       (if type p = Light then setScalar (initialScale p * (0.8 + blink time' (phase p) * 0.4))
        else if type p = Star then setScalar (initialScale p * (1.0 + sin (time' * 2) * 0.2))
        else scale (mesh p))"
    unfolding update_scale f using s1 by simp
  show ?thesis
    using f s1 s2 by (simp add: u newParticle_def)
qed

text \<open>
  Claim C8. For a leaf, an ornament or a trunk particle, \<open>update\<close> changes the position
  of the mesh (the interpolation step) and its rotation (the rotation speed added on
  each axis) and nothing else: the scale of the mesh, the store of the materials and so
  the emissive intensity stay as they are.
\<close>

theorem plain_types_frame:
  assumes "type p = Leaf \<or> type p = Ornament \<or> type p = Trunk"
  shows "update dt tm time (ms, p) =
           (ms, p\<lparr>mesh := (mesh p)
               \<lparr>position := lerp (position (mesh p)) (target p tm) (dt * speedFactor (type p) tm),
                rotation := \<lparr>vx = vx (rotation (mesh p)) + vx (rotationSpeed p),
                             vy = vy (rotation (mesh p)) + vy (rotationSpeed p),
                             vz = vz (rotation (mesh p)) + vz (rotationSpeed p)\<rparr>\<rparr>\<rparr>)
         \<and> scale (mesh (snd (update dt tm time (ms, p)))) = scale (mesh p)
         \<and> fst (update dt tm time (ms, p)) = ms
         \<and> emissiveIntensity (update dt tm time (ms, p)) = emissiveIntensity (ms, p)"
  using assms by (auto simp: update_def Let_def emissiveIntensity_def)

text \<open>A trunk particle, one frame in dispersed mode.\<close>

theorem plain_types_frame_witness:
  "(type (sampleParticle MatTrunk Trunk) = Leaf \<or> type (sampleParticle MatTrunk Trunk) = Ornament
      \<or> type (sampleParticle MatTrunk Trunk) = Trunk)
   \<and> scale (mesh (snd (update (1 / 60) False 2 (Map.empty, sampleParticle MatTrunk Trunk))))
       = scale (mesh (sampleParticle MatTrunk Trunk))
   \<and> fst (update (1 / 60) False 2 (Map.empty, sampleParticle MatTrunk Trunk)) = Map.empty
   \<and> emissiveIntensity (update (1 / 60) False 2 (Map.empty, sampleParticle MatTrunk Trunk))
       = emissiveIntensity (Map.empty, sampleParticle MatTrunk Trunk)"
proof -
  have h: "type (sampleParticle MatTrunk Trunk) = Leaf \<or> type (sampleParticle MatTrunk Trunk) = Ornament
      \<or> type (sampleParticle MatTrunk Trunk) = Trunk"
    by (simp add: sampleParticle_def newParticle_def)
  show ?thesis
    using h plain_types_frame [OF h, of "1 / 60" False 2 Map.empty]
    by (simp add: emissiveIntensity_def)
qed

text \<open>
  Claim C9. \<open>update\<close> takes no draw from \<open>Math.random()\<close>, and what is observed after
  the call depends on what is observed before it and on the arguments only: two
  particles that agree on position, rotation, scale, emissive intensity and on the
  fields set at construction agree on all of them after a call with the same
  arguments.
\<close>

theorem update_deterministic:
  assumes "observed (ms1, p1) = observed (ms2, p2)"
  shows "observed (update dt tm time (ms1, p1)) = observed (update dt tm time (ms2, p2))"
proof -
  from assms have e:
    "position (mesh p1) = position (mesh p2)" "rotation (mesh p1) = rotation (mesh p2)"
    "scale (mesh p1) = scale (mesh p2)" "emissiveIntensity (ms1, p1) = emissiveIntensity (ms2, p2)"
    "posTree p1 = posTree p2" "posScatter p1 = posScatter p2"
    "initialScale p1 = initialScale p2" "rotationSpeed p1 = rotationSpeed p2"
    "phase p1 = phase p2" "type p1 = type p2"
    by (simp_all add: observed_def)
  have t: "target p1 tm = target p2 tm" by (simp add: target_def e)
  show ?thesis
    unfolding observed_def Let_def snd_conv
    by (simp only: prod.collapse update_position update_rotation update_scale update_emissive
        update_fixed_fields e t)
qed

text \<open>
  Two lights that differ in their material and base colour and agree on everything
  observed.
\<close>

theorem update_deterministic_witness:
  "observed (Map.empty, sampleParticle MatLightWarm Light)
     = observed (Map.empty, (sampleParticle MatLightColor Light)\<lparr>baseColor := 0\<rparr>)
   \<and> observed (update (1 / 60) True 1 (Map.empty, sampleParticle MatLightWarm Light))
     = observed (update (1 / 60) True 1 (Map.empty, (sampleParticle MatLightColor Light)\<lparr>baseColor := 0\<rparr>))"
proof -
  have h: "observed (Map.empty, sampleParticle MatLightWarm Light)
     = observed (Map.empty, (sampleParticle MatLightColor Light)\<lparr>baseColor := 0\<rparr>)"
    by (simp add: observed_def sampleParticle_def newParticle_def newMesh_def emissiveIntensity_def)
  show ?thesis
    using h update_deterministic [OF h, of "1 / 60" True 1] by simp
qed

section \<open>Properties of the scene setup\<close>

lemma addParticle_default:
  "\<exists>q. particles (addParticle rnd m pos ty None s) = particles s @ [q]
       \<and> type q = ty \<and> position (mesh q) = pos \<and> posTree q = pos
       \<and> posScatter q = scatterDefault rnd (draws s)"
  by (simp add: addParticle_def Let_def newParticle_def)

lemma addParticle_custom:
  "\<exists>q. particles (addParticle rnd m pos ty (Some c) s) = particles s @ [q]
       \<and> type q = ty \<and> position (mesh q) = pos \<and> posTree q = pos \<and> posScatter q = c"
  by (simp add: addParticle_def Let_def newParticle_def)

lemma addParticle_placed:
  assumes "ty \<noteq> Snow"
  shows "\<exists>q. particles (addParticle rnd m pos ty None s) = particles s @ [q] \<and> placed rnd ty q"
proof -
  obtain q where q: "particles (addParticle rnd m pos ty None s) = particles s @ [q]"
    "type q = ty" "position (mesh q) = pos" "posTree q = pos"
    "posScatter q = scatterDefault rnd (draws s)"
    using addParticle_default [of rnd m pos ty s] by blast
  have "placed rnd ty q"
    unfolding placed_def using q assms by auto
  with q(1) show ?thesis by blast
qed

lemma trunkIter_placed:
  "\<exists>q. particles (trunkIter rnd i s) = particles s @ [q] \<and> placed rnd Trunk q"
  using addParticle_placed [of Trunk rnd _ _ "s\<lparr>draws := draws s + 3\<rparr>"]
  by (simp add: trunkIter_def Let_def)

lemma foliageIter_placed:
  "\<exists>q. particles (foliageIter rnd i s) = particles s @ [q] \<and> placed rnd Leaf q"
  using addParticle_placed [of Leaf rnd _ _ "s\<lparr>draws := draws s + 7\<rparr>"]
  by (simp add: foliageIter_def Let_def)

lemma lightIter_placed:
  "\<exists>q. particles (lightIter rnd i s) = particles s @ [q] \<and> placed rnd Light q"
  using addParticle_placed [of Light rnd _ _ "s\<lparr>draws := draws s + 2\<rparr>"]
  by (simp add: lightIter_def Let_def)

lemma addStar_placed:
  "\<exists>q. particles (addStar rnd s) = particles s @ [q] \<and> placed rnd Star q"
  using addParticle_placed [of Star rnd _ _ s]
  by (simp add: addStar_def Let_def)

lemma snowIter_placed:
  "\<exists>q. particles (snowIter rnd i s) = particles s @ [q] \<and> placed rnd Snow q"
proof -
  let ?s = "s\<lparr>draws := draws s + 6\<rparr>"
  let ?m = "(newMesh MatSnow)\<lparr>scale := setScalar 0.12\<rparr>"
  let ?pos = "\<lparr>vx = (rnd (draws s) - 0.5) * 70, vy = (rnd (draws s + 1) - 0.5) * 70 + 10,
               vz = (rnd (draws s + 2) - 0.5) * 70\<rparr>"
  obtain q where q: "particles (addParticle rnd ?m ?pos Snow (Some (snowScatter rnd (draws s + 3))) ?s)
      = particles ?s @ [q]"
    "type q = Snow" "position (mesh q) = ?pos" "posTree q = ?pos"
    "posScatter q = snowScatter rnd (draws s + 3)"
    using addParticle_custom by blast
  have "placed rnd Snow q"
    unfolding placed_def using q by auto
  with q(1) show ?thesis
    by (auto simp: snowIter_def Let_def)
qed

lemma ornamentIter_placed:
  assumes "rnd (draws s) \<le> 0.98"
  shows "\<exists>q. particles (ornamentIter rnd i s) = particles s @ [q] \<and> placed rnd Ornament q"
  using assms addParticle_placed [of Ornament rnd _ _ "s\<lparr>draws := draws s + 6\<rparr>"]
  by (simp add: ornamentIter_def Let_def not_less [symmetric])

lemma ornamentIter_skipped:
  assumes "\<not> rnd (draws s) \<le> 0.98"
  shows "particles (ornamentIter rnd i s) = particles s"
  using assms by (simp add: ornamentIter_def Let_def)

lemma ornamentIter_length:
  "length (particles (ornamentIter rnd i s))
     = length (particles s) + (if rnd (draws s) \<le> 0.98 then 1 else 0)"
proof (cases "rnd (draws s) \<le> 0.98")
  case True
  then show ?thesis using ornamentIter_placed [of rnd s i] by auto
next
  case False
  then show ?thesis using ornamentIter_skipped [of rnd s i] by simp
qed

lemma loop_appends:
  assumes "\<And>i s. \<exists>q. particles (body i s) = particles s @ [q] \<and> P q"
  shows "\<exists>ps. particles (fold body [0..<n] s) = particles s @ ps \<and> length ps = n
            \<and> (\<forall>q\<in>set ps. P q)"
proof (induction n)
  case 0
  show ?case by simp
next
  case (Suc n)
  then obtain ps where ps: "particles (fold body [0..<n] s) = particles s @ ps"
    "length ps = n" "\<forall>q\<in>set ps. P q" by blast
  obtain q where q: "particles (body n (fold body [0..<n] s)) = particles (fold body [0..<n] s) @ [q]"
    "P q" using assms by blast
  have "particles (fold body [0..<Suc n] s) = particles s @ (ps @ [q])"
    using ps(1) q(1) by simp
  moreover have "length (ps @ [q]) = Suc n" using ps(2) by simp
  moreover have "\<forall>x\<in>set (ps @ [q]). P x" using ps(3) q(2) by simp
  ultimately show ?case by blast
qed

lemma ornament_loop:
  "\<exists>ps. particles (fold (ornamentIter rnd) [0..<n] s) = particles s @ ps
        \<and> length ps =
            length (filter (\<lambda>i. rnd (draws (fold (ornamentIter rnd) [0..<i] s)) \<le> 0.98) [0..<n])
        \<and> (\<forall>q\<in>set ps. placed rnd Ornament q)"
proof (induction n)
  case 0
  show ?case by simp
next
  case (Suc n)
  let ?s = "fold (ornamentIter rnd) [0..<n] s"
  let ?t = "\<lambda>i. rnd (draws (fold (ornamentIter rnd) [0..<i] s)) \<le> 0.98"
  from Suc obtain ps where ps: "particles ?s = particles s @ ps"
    "length ps = length (filter ?t [0..<n])" "\<forall>q\<in>set ps. placed rnd Ornament q" by blast
  show ?case
  proof (cases "?t n")
    case True
    then obtain q where q: "particles (ornamentIter rnd n ?s) = particles ?s @ [q]"
      "placed rnd Ornament q" using ornamentIter_placed [of rnd ?s n] by blast
    have "particles (fold (ornamentIter rnd) [0..<Suc n] s) = particles s @ (ps @ [q])"
      using ps(1) q(1) by simp
    moreover have "length (ps @ [q]) = length (filter ?t [0..<Suc n])"
      using ps(2) True by simp
    moreover have "\<forall>x\<in>set (ps @ [q]). placed rnd Ornament x" using ps(3) q(2) by simp
    ultimately show ?thesis by blast
  next
    case False
    then have "particles (ornamentIter rnd n ?s) = particles ?s"
      using ornamentIter_skipped [of rnd ?s n] by simp
    then have "particles (fold (ornamentIter rnd) [0..<Suc n] s) = particles s @ ps"
      using ps(1) by simp
    moreover have "length ps = length (filter ?t [0..<Suc n])"
      using ps(2) False by simp
    ultimately show ?thesis using ps(3) by blast
  qed
qed

lemma scene_structure:
  "\<exists>tr fo orn li st sn.
     particles (generateScene rnd) = tr @ fo @ orn @ li @ [st] @ sn
     \<and> length tr = 250 \<and> (\<forall>q\<in>set tr. placed rnd Trunk q)
     \<and> length fo = 8000 \<and> (\<forall>q\<in>set fo. placed rnd Leaf q)
     \<and> length orn = length (filter (\<lambda>i. ornamentT rnd i \<le> 0.98) [0..<350])
     \<and> (\<forall>q\<in>set orn. placed rnd Ornament q)
     \<and> length li = 400 \<and> (\<forall>q\<in>set li. placed rnd Light q)
     \<and> placed rnd Star st
     \<and> length sn = 700 \<and> (\<forall>q\<in>set sn. placed rnd Snow q)"
proof -
  obtain tr where tr: "particles (afterTrunk rnd) = [] @ tr" "length tr = 250"
    "\<forall>q\<in>set tr. placed rnd Trunk q"
    unfolding afterTrunk_def
    using loop_appends [of "trunkIter rnd" "placed rnd Trunk" 250 "\<lparr>draws = 0, particles = []\<rparr>",
        OF trunkIter_placed] by auto
  obtain fo where fo: "particles (afterFoliage rnd) = particles (afterTrunk rnd) @ fo"
    "length fo = FOLIAGE_COUNT" "\<forall>q\<in>set fo. placed rnd Leaf q"
    unfolding afterFoliage_def
    using loop_appends [of "foliageIter rnd" "placed rnd Leaf" FOLIAGE_COUNT "afterTrunk rnd",
        OF foliageIter_placed] by blast
  obtain orn where orn: "particles (afterOrnaments rnd) = particles (afterFoliage rnd) @ orn"
    "length orn = length (filter (\<lambda>i. ornamentT rnd i \<le> 0.98) [0..<ORNAMENT_COUNT])"
    "\<forall>q\<in>set orn. placed rnd Ornament q"
    unfolding afterOrnaments_def ornamentT_def
    using ornament_loop [of rnd ORNAMENT_COUNT "afterFoliage rnd"] by blast
  obtain li where li: "particles (afterLights rnd) = particles (afterOrnaments rnd) @ li"
    "length li = LIGHT_COUNT" "\<forall>q\<in>set li. placed rnd Light q"
    unfolding afterLights_def
    using loop_appends [of "lightIter rnd" "placed rnd Light" LIGHT_COUNT "afterOrnaments rnd",
        OF lightIter_placed] by blast
  obtain st where st: "particles (afterStar rnd) = particles (afterLights rnd) @ [st]"
    "placed rnd Star st"
    unfolding afterStar_def using addStar_placed by blast
  obtain sn where sn: "particles (generateScene rnd) = particles (afterStar rnd) @ sn"
    "length sn = SNOW_COUNT" "\<forall>q\<in>set sn. placed rnd Snow q"
    unfolding generateScene_def
    using loop_appends [of "snowIter rnd" "placed rnd Snow" SNOW_COUNT "afterStar rnd",
        OF snowIter_placed] by blast
  have e: "particles (generateScene rnd) = tr @ fo @ orn @ li @ [st] @ sn"
    by (simp add: sn(1) st(1) li(1) orn(1) fo(1) tr(1))
  have l: "length fo = 8000" "length li = 400" "length sn = 700"
    "length orn = length (filter (\<lambda>i. ornamentT rnd i \<le> 0.98) [0..<350])"
    using fo(2) li(2) sn(2) orn(2) by simp_all
  show ?thesis
    using e tr(2,3) l fo(3) orn(3) li(3) st(2) sn(3) by blast
qed

lemma scene_all_placed:
  assumes "p \<in> set (particles (generateScene rnd))"
  shows "placed rnd (type p) p"
proof -
  obtain tr fo orn li st sn where
    e: "particles (generateScene rnd) = tr @ fo @ orn @ li @ [st] @ sn"
    and a: "\<forall>q\<in>set tr. placed rnd Trunk q" "\<forall>q\<in>set fo. placed rnd Leaf q"
      "\<forall>q\<in>set orn. placed rnd Ornament q" "\<forall>q\<in>set li. placed rnd Light q"
      "placed rnd Star st" "\<forall>q\<in>set sn. placed rnd Snow q"
    using scene_structure [of rnd] by blast
  from assms e have "p \<in> set tr \<or> p \<in> set fo \<or> p \<in> set orn \<or> p \<in> set li \<or> p = st \<or> p \<in> set sn"
    by auto
  then obtain ty where "placed rnd ty p" using a by blast
  then show ?thesis by (simp add: placed_def)
qed

lemma countType_append: "countType ty (a @ b) = countType ty a + countType ty b"
  by (simp add: countType_def)

lemma countType_placed:
  assumes "\<forall>q\<in>set a. placed rnd ty' q"
  shows "countType ty a = (if ty = ty' then length a else 0)"
proof -
  have "\<forall>q\<in>set a. type q = ty'" using assms by (simp add: placed_def)
  then show ?thesis
    by (induction a) (auto simp: countType_def)
qed

lemma pi_ge_3: "3 \<le> pi"
  using sin_x_le_x [of "pi / 6"] by (simp add: sin_30)

lemma branchNoise_512: "branchNoise 512 < 0"
proof -
  have "sin (24 / 5 :: real) < 0"
    using pi_ge_3 pi_less_4 by (intro sin_lt_zero) auto
  then show ?thesis by (simp add: branchNoise_def)
qed

lemma foliageRNorm_09: "0.6 < foliageRNorm (9 / 10)"
  using powr_mono' [of "4 / 5" 1 "9 / 10 :: real"] by (simp add: foliageRNorm_def)

lemma foliageMaxR_pos: "i < FOLIAGE_COUNT \<Longrightarrow> 0 < foliageMaxR i"
  by (simp add: foliageMaxR_def)

lemma branchNoise_range: "- 0.2 \<le> branchNoise i \<and> branchNoise i \<le> 0.2"
proof -
  have "- 1 \<le> sin (real i / real FOLIAGE_COUNT * TREE_HEIGHT * 2.5)"
    "sin (real i / real FOLIAGE_COUNT * TREE_HEIGHT * 2.5) \<le> 1" by simp_all
  then show ?thesis unfolding branchNoise_def by linarith
qed

section \<open>The claims on the scene setup\<close>

text \<open>
  Claim C6. The scene has 250 trunk, 8000 leaf, 400 light, 1 star and 700 snow
  particles. An iteration of the ornament loop adds one particle when its draw \<open>t\<close> is
  at most 0.98 and none otherwise, so the number of ornaments is the number of
  iterations among the 350 whose draw is at most 0.98, which is at most 350. The length
  of the list is the sum of the six counts.
\<close>

theorem scene_category_counts:
  "countType Trunk (particles (generateScene rnd)) = 250
   \<and> countType Leaf (particles (generateScene rnd)) = 8000
   \<and> countType Light (particles (generateScene rnd)) = 400
   \<and> countType Star (particles (generateScene rnd)) = 1
   \<and> countType Snow (particles (generateScene rnd)) = 700
   \<and> countType Ornament (particles (generateScene rnd))
       = length (filter (\<lambda>i. ornamentT rnd i \<le> 0.98) [0..<350])
   \<and> countType Ornament (particles (generateScene rnd)) \<le> 350
   \<and> length (particles (generateScene rnd))
       = 250 + 8000 + countType Ornament (particles (generateScene rnd)) + 400 + 1 + 700
   \<and> length (particles (ornamentIter rnd i s))
       = length (particles s) + (if rnd (draws s) \<le> 0.98 then 1 else 0)"
proof -
  obtain tr fo orn li st sn where
    e: "particles (generateScene rnd) = tr @ fo @ orn @ li @ [st] @ sn"
    and l: "length tr = 250" "length fo = 8000"
      "length orn = length (filter (\<lambda>i. ornamentT rnd i \<le> 0.98) [0..<350])"
      "length li = 400" "length sn = 700"
    and a: "\<forall>q\<in>set tr. placed rnd Trunk q" "\<forall>q\<in>set fo. placed rnd Leaf q"
      "\<forall>q\<in>set orn. placed rnd Ornament q" "\<forall>q\<in>set li. placed rnd Light q"
      "\<forall>q\<in>set sn. placed rnd Snow q"
    and s: "placed rnd Star st"
    using scene_structure [of rnd] by blast
  have s': "\<forall>q\<in>set [st]. placed rnd Star q" using s by simp
  have c: "countType ty (particles (generateScene rnd))
      = (if ty = Trunk then length tr else 0) + (if ty = Leaf then length fo else 0)
        + (if ty = Ornament then length orn else 0) + (if ty = Light then length li else 0)
        + (if ty = Star then 1 else 0) + (if ty = Snow then length sn else 0)" for ty
    unfolding e countType_append
    unfolding countType_placed [OF a(1)] countType_placed [OF a(2)] countType_placed [OF a(3)]
      countType_placed [OF a(4)] countType_placed [OF a(5)] countType_placed [OF s']
    by simp
  have o: "length orn \<le> 350"
    unfolding l(3) using length_filter_le [of _ "[0..<350]"] by (simp del: length_filter_le)
  have n: "length (particles (generateScene rnd)) = 250 + 8000 + length orn + 400 + 1 + 700"
    unfolding e using l by simp
  show ?thesis
    using o n l by (simp add: c ornamentIter_length)
qed

text \<open>
  Claim C10. \<open>addParticle\<close> puts the mesh at the tree position that it hands to the
  constructor, so for every particle of the scene the position of the mesh is the tree
  position, and the distance to the target of tree mode is zero.
\<close>

theorem scene_starts_assembled:
  "map (\<lambda>p. position (mesh p)) (particles (generateScene rnd))
     = map posTree (particles (generateScene rnd))
   \<and> map (\<lambda>p. distanceTo (position (mesh p)) (target p True)) (particles (generateScene rnd))
     = replicate (length (particles (generateScene rnd))) 0
   \<and> position (mesh (last (particles (addParticle rnd m pos ty c s)))) = pos
   \<and> posTree (last (particles (addParticle rnd m pos ty c s))) = pos"
proof -
  have p: "position (mesh q) = posTree q" if "q \<in> set (particles (generateScene rnd))" for q
    using scene_all_placed [OF that] by (simp add: placed_def)
  have 1: "map (\<lambda>p. position (mesh p)) (particles (generateScene rnd))
     = map posTree (particles (generateScene rnd))"
    using p by simp
  have "distanceTo (position (mesh q)) (target q True) = 0"
    if "q \<in> set (particles (generateScene rnd))" for q
    using p [OF that] by (simp add: distanceTo_def target_def)
  then have "map (\<lambda>p. distanceTo (position (mesh p)) (target p True)) (particles (generateScene rnd))
     = map (\<lambda>p. 0) (particles (generateScene rnd))"
    by simp
  then have 2: "map (\<lambda>p. distanceTo (position (mesh p)) (target p True)) (particles (generateScene rnd))
     = replicate (length (particles (generateScene rnd))) 0"
    by (simp only: map_replicate_const)
  have 3: "position (mesh (last (particles (addParticle rnd m pos ty c s)))) = pos
   \<and> posTree (last (particles (addParticle rnd m pos ty c s))) = pos"
    by (cases c) (simp_all add: addParticle_def Let_def newParticle_def)
  show ?thesis using 1 2 3 by simp
qed

text \<open>
  Claim C7, as stated, fails: at iteration 512 (height 1.92, where \<open>sin (h * 2.5)\<close> is
  \<open>sin 4.8 < 0\<close>) and the draw 0.9 the radial fraction exceeds 0.6 and the radius is
  smaller than the unperturbed one.
\<close>

theorem foliage_perturbation_counterexample:
  "(512::nat) < FOLIAGE_COUNT \<and> 0.6 < foliageRNorm (9 / 10)
   \<and> foliageR 512 (9 / 10) < foliageMaxR 512 * foliageRNorm (9 / 10)"
proof -
  have m: "0 < foliageMaxR 512 * foliageRNorm (9 / 10)"
    using foliageRNorm_09 foliageMaxR_pos [of 512] by (intro mult_pos_pos) simp_all
  have "foliageR 512 (9 / 10)
      = foliageMaxR 512 * foliageRNorm (9 / 10) * (1 + branchNoise 512)"
    using foliageRNorm_09 by (simp add: foliageR_def Let_def)
  also have "\<dots> < foliageMaxR 512 * foliageRNorm (9 / 10) * 1"
    using m branchNoise_512 by (intro mult_strict_left_mono) simp_all
  finally show ?thesis using foliageRNorm_09 by simp
qed

text \<open>
  Claim C7, amended. For a radial fraction above 0.6 the radius is the unperturbed
  radius \<open>maxR * rNorm\<close> times \<open>1 + sin (h * 2.5) * 0.2\<close>; it lies between 0.8 and 1.2
  times the unperturbed radius, and is at least the unperturbed radius exactly when
  \<open>sin (h * 2.5)\<close> is not negative. For a radial fraction of at most 0.6 the radius is
  the unperturbed one.
\<close>

theorem foliage_perturbation_wavy:
  assumes "i < FOLIAGE_COUNT"
  shows "foliageR i u =
           (if foliageRNorm u > 0.6
            then foliageMaxR i * foliageRNorm u
                   * (1 + sin (real i / real FOLIAGE_COUNT * TREE_HEIGHT * 2.5) * 0.2)
            else foliageMaxR i * foliageRNorm u)
         \<and> 0.8 * (foliageMaxR i * foliageRNorm u) \<le> foliageR i u
         \<and> foliageR i u \<le> 1.2 * (foliageMaxR i * foliageRNorm u)
         \<and> (if foliageRNorm u > 0.6
            then (foliageMaxR i * foliageRNorm u \<le> foliageR i u)
                   = (0 \<le> sin (real i / real FOLIAGE_COUNT * TREE_HEIGHT * 2.5))
            else foliageR i u = foliageMaxR i * foliageRNorm u)"
proof -
  let ?b = "foliageMaxR i * foliageRNorm u"
  have b0: "0 \<le> ?b"
    using foliageMaxR_pos [OF assms] by (simp add: foliageRNorm_def)
  have e: "foliageR i u = (if foliageRNorm u > 0.6 then ?b * (1 + branchNoise i) else ?b)"
    by (simp add: foliageR_def Let_def)
  have n: "- 0.2 \<le> branchNoise i" "branchNoise i \<le> 0.2"
    using branchNoise_range by simp_all
  have lo: "0.8 * ?b \<le> ?b * (1 + branchNoise i)"
  proof -
    have "?b * 0.8 \<le> ?b * (1 + branchNoise i)"
      using b0 n(1) by (intro mult_left_mono) simp_all
    then show ?thesis by (simp add: mult.commute)
  qed
  have hi: "?b * (1 + branchNoise i) \<le> 1.2 * ?b"
  proof -
    have "?b * (1 + branchNoise i) \<le> ?b * 1.2"
      using b0 n(2) by (intro mult_left_mono) simp_all
    then show ?thesis by (simp add: mult.commute)
  qed
  have lo': "0.8 * ?b \<le> ?b" and hi': "?b \<le> 1.2 * ?b" using b0 by simp_all
  have iff: "(?b \<le> ?b * (1 + branchNoise i)) = (0 \<le> branchNoise i)" if "foliageRNorm u > 0.6"
  proof -
    have "0 < ?b" using that foliageMaxR_pos [OF assms] by (intro mult_pos_pos) simp_all
    then have "(?b * 1 \<le> ?b * (1 + branchNoise i)) = (1 \<le> 1 + branchNoise i)"
      by (rule mult_le_cancel_left_pos)
    then show ?thesis by simp
  qed
  have s: "(0 \<le> branchNoise i) = (0 \<le> sin (real i / real FOLIAGE_COUNT * TREE_HEIGHT * 2.5))"
    by (simp add: branchNoise_def zero_le_mult_iff)
  show ?thesis
  proof (cases "foliageRNorm u > 0.6")
    case True
    have "foliageR i u = ?b * (1 + branchNoise i)" using e True by simp
    then show ?thesis
      using True lo hi iff [OF True] s by (simp add: branchNoise_def)
  next
    case False
    have "foliageR i u = ?b" using e False by simp
    then show ?thesis using False lo' hi' by simp
  qed
qed

text \<open>Iteration 512 with the draw 0.9.\<close>

theorem foliage_perturbation_wavy_witness:
  "(512::nat) < FOLIAGE_COUNT \<and> foliageRNorm (9 / 10) > 0.6
   \<and> foliageR 512 (9 / 10)
       = foliageMaxR 512 * foliageRNorm (9 / 10)
           * (1 + sin (real (512::nat) / real FOLIAGE_COUNT * TREE_HEIGHT * 2.5) * 0.2)
   \<and> 0.8 * (foliageMaxR 512 * foliageRNorm (9 / 10)) \<le> foliageR 512 (9 / 10)
   \<and> foliageR 512 (9 / 10) \<le> 1.2 * (foliageMaxR 512 * foliageRNorm (9 / 10))"
proof -
  have h: "(512::nat) < FOLIAGE_COUNT" by simp
  show ?thesis
    using h foliageRNorm_09 foliage_perturbation_wavy [OF h, of "9 / 10"] by simp
qed

end
